theory Spec2Isabelle
  imports Main "HOL-Library.Word"
begin

section \<open>Wire messages and observable calls\<close>

type_synonym u32 = "32 word"

text \<open>
  Modelled from the spec: the message structs of \<^verbatim>\<open>ipc-android.h\<close> are not part of the
  sources at hand. A frame is a message code followed by a payload; the kinds and their
  payloads are the ones section 3 of the specification lists. \<open>OtherCode\<close> stands for any
  frame whose code is none of them.
\<close>

datatype message =
    PoolConstruction
  | PoolConstructionReply u32
  | RegisterPool u32
  | UnregisterPool u32
  | PoolPurge u32
  | BufferAllocation u32 u32
  | BufferCommit u32 u32
  | FrameComplete u32
  | ReleaseBuffer u32 u32
  | OtherCode u32

text \<open>
  A target talks over two sockets: its own \<^verbatim>\<open>ipcClient\<close> and the one of the renderer
  backend it was initialised with, \<^verbatim>\<open>m_backend->ipc()\<close>.
\<close>

datatype channel = TargetChannel | BackendChannel

type_synonym AHardwareBuffer = nat
type_synonym EGLImageKHR = nat

text \<open>
  The calls into the collaborators that create, hand over or destroy a resource, in the
  order the code makes them. Logging, \<^verbatim>\<open>glFlush\<close> and the framebuffer binding calls
  change nothing that is modelled here and are left out. \<open>Allocate b r h\<close> is a call of
  \<^verbatim>\<open>AHardwareBuffer_allocate\<close> for the slot with id \<open>b\<close> that returned \<open>r\<close> and left
  \<open>h\<close> in the slot's \<^verbatim>\<open>object\<close>.
\<close>

datatype event =
    Sent channel message
  | Allocate u32 int "AHardwareBuffer option"
  | SendHandle AHardwareBuffer
  | ReleaseHandle AHardwareBuffer
  | DeleteRenderbuffer u32
  | DestroyImage EGLImageKHR
  | DeleteFramebuffer u32
  | DispatchFrameComplete nat

text \<open>
  The ways a call ends the process: \<^verbatim>\<open>std::abort\<close>, \<^verbatim>\<open>g_error\<close> on an unknown pool,
  and the use of a pointer that is null or, for the current slot, not one into the pool.
\<close>

datatype fatal =
    Abort
  | UnknownPool u32
  | InvalidPointer

section \<open>The buffer pool of a target\<close>

text \<open>\<^verbatim>\<open>struct Buffer\<close>: null pointers and \<^verbatim>\<open>EGL_NO_IMAGE_KHR\<close> are \<open>None\<close>.\<close>

record Buffer =
  bufferID :: u32
  locked :: bool
  object :: "AHardwareBuffer option"
  egl_image :: "EGLImageKHR option"
  gl_colorBuffer :: u32
  gl_dsBuffer :: u32

text \<open>
  \<^verbatim>\<open>class EGLTarget\<close>. \<open>buffers_current\<close> is the pointer into the pool, kept as the index
  of the slot it points to; \<open>m_backend\<close> is null until \<^verbatim>\<open>initialize\<close>. The four entry
  points fetched with \<^verbatim>\<open>eglGetProcAddress\<close> are taken to be available.
\<close>

record EGLTarget =
  target :: nat
  m_backend :: "nat option"
  renderer_initialized :: bool
  renderer_width :: u32
  renderer_height :: u32
  renderer_framebuffer :: u32
  buffers_current :: "nat option"
  buffers_poolID :: u32
  buffers_pool :: "Buffer list"

definition Buffer_default :: "u32 \<Rightarrow> Buffer" where
  "Buffer_default i =
     \<lparr>bufferID = i, locked = False, object = None, egl_image = None,
      gl_colorBuffer = 0, gl_dsBuffer = 0\<rparr>"

text \<open>The constructor numbers the four slots by their position in the array.\<close>

definition EGLTarget_new :: "nat \<Rightarrow> EGLTarget" where
  "EGLTarget_new t =
     \<lparr>target = t, m_backend = None, renderer_initialized = False,
      renderer_width = 0, renderer_height = 0, renderer_framebuffer = 0,
      buffers_current = None, buffers_poolID = 0,
      buffers_pool = map (\<lambda>i. Buffer_default (of_nat i)) [0..<4]\<rparr>"

text \<open>
  What the constructor establishes and no operation changes: four slots, slot \<open>i\<close>
  carrying id \<open>i\<close>, and a current pointer that points into the array.
\<close>

definition pool_ok :: "EGLTarget \<Rightarrow> bool" where
  "pool_ok s \<longleftrightarrow>
     length (buffers_pool s) = 4 \<and>
     map bufferID (buffers_pool s) = [0, 1, 2, 3] \<and>
     (case buffers_current s of None \<Rightarrow> True | Some i \<Rightarrow> i < 4)"

subsection \<open>Release\<close>

text \<open>The second loop of \<^verbatim>\<open>releaseBuffer\<close>: unlock the first slot with the id, then stop.\<close>

fun unlockFirst :: "u32 \<Rightarrow> Buffer list \<Rightarrow> Buffer list" where
  "unlockFirst b [] = []"
| "unlockFirst b (x # xs) =
     (if bufferID x = b then x\<lparr>locked := False\<rparr> # xs else x # unlockFirst b xs)"

definition releaseBuffer :: "u32 \<Rightarrow> u32 \<Rightarrow> EGLTarget \<Rightarrow> EGLTarget" where
  "releaseBuffer poolID b s =
     (if buffers_poolID s \<noteq> poolID then s
      else s\<lparr>buffers_pool := unlockFirst b (buffers_pool s)\<rparr>)"

subsection \<open>Acquire\<close>

text \<open>
  The scan of \<^verbatim>\<open>frameWillRender\<close>: the index of the first slot that is not locked,
  counted from \<open>k\<close>.
\<close>

fun firstUnlocked :: "Buffer list \<Rightarrow> nat \<Rightarrow> nat option" where
  "firstUnlocked [] k = None"
| "firstUnlocked (b # bs) k = (if locked b then firstUnlocked bs (Suc k) else Some k)"

text \<open>Errno values of the platform (\<^verbatim>\<open>errno.h\<close> on Linux and Android).\<close>

definition EINTR :: int where "EINTR = 4"
definition EAGAIN :: int where "EAGAIN = 11"

text \<open>
  The loop around \<^verbatim>\<open>AHardwareBuffer_sendHandleToUnixSocket\<close>, run on the return values
  the call gives one after the other. It yields the number of calls made, and \<open>None\<close>
  when every value supplied is \<^verbatim>\<open>-EAGAIN\<close>: the loop has not ended.
\<close>

fun sendHandleLoop :: "int list \<Rightarrow> nat option" where
  "sendHandleLoop [] = None"
| "sendHandleLoop (r # rs) =
     (if r = 0 \<or> r \<noteq> - EAGAIN then Some 1
      else map_option Suc (sendHandleLoop rs))"

text \<open>What the collaborators answer during one \<^verbatim>\<open>frameWillRender\<close>.\<close>

record render_env =
  gen_framebuffer :: u32
  allocate_ret :: int
  allocate_out :: "AHardwareBuffer option"
  create_image :: "EGLImageKHR option"
  gen_renderbuffers :: "u32 \<times> u32"
  send_handle_rets :: "int list"

text \<open>
  Lines 287 to 347: give the current slot \<open>i\<close> its buffer if it has none, announce it and
  hand it over.
\<close>

definition realizeCurrent ::
  "render_env \<Rightarrow> nat \<Rightarrow> EGLTarget \<Rightarrow> (fatal + EGLTarget \<times> event list) option" where
  "realizeCurrent env i s =
     (let pool = buffers_pool s; cur = pool ! i in
      if i \<ge> length pool then Some (Inl InvalidPointer)
      else if object cur = None then
        (let cur1 = cur\<lparr>object := allocate_out env\<rparr>;
             called = Allocate (bufferID cur) (allocate_ret env) (allocate_out env)
         in if allocate_ret env \<noteq> 0 \<or> allocate_out env = None
            then Some (Inr (s\<lparr>buffers_pool := pool[i := cur1]\<rparr>, [called]))
            else
              (let cur2 = cur1\<lparr>egl_image := create_image env,
                               gl_colorBuffer := fst (gen_renderbuffers env),
                               gl_dsBuffer := snd (gen_renderbuffers env)\<rparr>
               in case m_backend s of
                    None \<Rightarrow> Some (Inl InvalidPointer)
                  | Some _ \<Rightarrow>
                      (case sendHandleLoop (send_handle_rets env) of
                         None \<Rightarrow> None
                       | Some n \<Rightarrow>
                           Some (Inr (s\<lparr>buffers_pool := pool[i := cur2]\<rparr>,
                             [called,
                              Sent BackendChannel
                                (BufferAllocation (buffers_poolID s) (bufferID cur))]
                             @ (case allocate_out env of
                                  None \<Rightarrow> []
                                | Some h \<Rightarrow> replicate n (SendHandle h)))))))
      else Some (Inr (s, [])))"

definition frameWillRender ::
  "render_env \<Rightarrow> EGLTarget \<Rightarrow> (fatal + EGLTarget \<times> event list) option" where
  "frameWillRender env s =
     (let s1 = (if \<not> renderer_initialized s
                then s\<lparr>renderer_initialized := True,
                       renderer_framebuffer := gen_framebuffer env\<rparr>
                else s);
          s2 = (case firstUnlocked (buffers_pool s1) 0 of
                  None \<Rightarrow> s1
                | Some i \<Rightarrow> s1\<lparr>buffers_current := Some i\<rparr>)
      in case buffers_current s2 of
           None \<Rightarrow> Some (Inl Abort)
         | Some i \<Rightarrow> realizeCurrent env i s2)"

subsection \<open>Commit\<close>

definition frameRendered :: "EGLTarget \<Rightarrow> fatal + EGLTarget \<times> event list" where
  "frameRendered s =
     (case buffers_current s of
        None \<Rightarrow> Inl InvalidPointer
      | Some i \<Rightarrow>
          (let pool = buffers_pool s; cur = pool ! i in
           if i \<ge> length pool then Inl InvalidPointer
           else
             (case object cur of
                None \<Rightarrow>
                  Inr (s\<lparr>buffers_pool := pool[i := cur\<lparr>locked := True\<rparr>],
                         buffers_current := None\<rparr>, [])
              | Some h \<Rightarrow>
                  (case m_backend s of
                     None \<Rightarrow> Inl InvalidPointer
                   | Some _ \<Rightarrow>
                       Inr (s\<lparr>buffers_pool := pool[i := cur\<lparr>locked := True\<rparr>],
                              buffers_current := None\<rparr>,
                            [Sent BackendChannel
                               (BufferCommit (buffers_poolID s) (bufferID cur))])))))"

subsection \<open>Purge\<close>

definition destroyBuffer_events :: "Buffer \<Rightarrow> event list" where
  "destroyBuffer_events b =
     (if gl_colorBuffer b \<noteq> 0 then [DeleteRenderbuffer (gl_colorBuffer b)] else []) @
     (if gl_dsBuffer b \<noteq> 0 then [DeleteRenderbuffer (gl_dsBuffer b)] else []) @
     (case egl_image b of None \<Rightarrow> [] | Some im \<Rightarrow> [DestroyImage im]) @
     (case object b of None \<Rightarrow> [] | Some h \<Rightarrow> [ReleaseHandle h])"

definition destroyBuffer :: "Buffer \<Rightarrow> Buffer" where
  "destroyBuffer b =
     b\<lparr>gl_colorBuffer := 0, gl_dsBuffer := 0, egl_image := None,
       locked := False, object := None\<rparr>"

fun destroyBufferPool :: "Buffer list \<Rightarrow> Buffer list \<times> event list" where
  "destroyBufferPool [] = ([], [])"
| "destroyBufferPool (b # bs) =
     (let (bs', evs) = destroyBufferPool bs
      in (destroyBuffer b # bs', destroyBuffer_events b @ evs))"

definition resize :: "u32 \<Rightarrow> u32 \<Rightarrow> EGLTarget \<Rightarrow> EGLTarget \<times> event list" where
  "resize width height s =
     (if renderer_width s = width \<and> renderer_height s = height then (s, [])
      else
        (let (pool', evs) = destroyBufferPool (buffers_pool s)
         in (s\<lparr>renderer_width := width, renderer_height := height,
               buffers_pool := pool'\<rparr>,
             evs @ [Sent TargetChannel (PoolPurge (buffers_poolID s))])))"

definition deinitialize :: "EGLTarget \<Rightarrow> EGLTarget \<times> event list" where
  "deinitialize s =
     (let (pool', evs) = destroyBufferPool (buffers_pool s)
      in (s\<lparr>buffers_pool := pool', renderer_framebuffer := 0\<rparr>,
          evs @ (if renderer_framebuffer s \<noteq> 0
                 then [DeleteFramebuffer (renderer_framebuffer s)] else [])))"

text \<open>The destructor announces the end of the pool on the target's own channel.\<close>

definition EGLTarget_delete :: "EGLTarget \<Rightarrow> event list" where
  "EGLTarget_delete s = [Sent TargetChannel (UnregisterPool (buffers_poolID s))]"

section \<open>The renderer backend\<close>

text \<open>
  \<^verbatim>\<open>m_targetMap\<close> maps a pool id to the address of the target that owns the pool. The
  store gives what is found at an address when it is read as a target. The map is only
  ever inserted into and the code never asks whether a registered target is still alive,
  so the store does not say so either: a message for the entry of a destroyed target runs
  on whatever that target left at its address.
\<close>

record RendererBackend =
  m_targetMap :: "u32 \<rightharpoonup> nat"

type_synonym targets = "nat \<Rightarrow> EGLTarget"

text \<open>\<^verbatim>\<open>std::unordered_map::insert\<close> adds the pair only when the key has no entry yet.\<close>

definition registerEGLTarget :: "u32 \<Rightarrow> nat \<Rightarrow> RendererBackend \<Rightarrow> RendererBackend" where
  "registerEGLTarget poolId t b =
     (case m_targetMap b poolId of
        None \<Rightarrow> b\<lparr>m_targetMap := (m_targetMap b)(poolId \<mapsto> t)\<rparr>
      | Some _ \<Rightarrow> b)"

text \<open>
  \<^verbatim>\<open>RendererBackend::handleMessage\<close> on a received buffer holding \<open>msg\<close>, of \<open>size\<close>
  bytes. \<open>Message_size\<close> is the frame size \<^verbatim>\<open>IPC::Message::size\<close>, a constant of the
  header that is not at hand; it is a parameter wherever the code compares with it.
\<close>

definition handleMessage ::
  "nat \<Rightarrow> message \<times> nat \<Rightarrow> RendererBackend \<Rightarrow> targets \<Rightarrow> fatal + targets \<times> event list" where
  "handleMessage Message_size received b ts =
     (let (msg, size) = received in
      if size \<noteq> Message_size then Inr (ts, [])
      else
        (case msg of
           FrameComplete poolID \<Rightarrow>
             (case m_targetMap b poolID of
                None \<Rightarrow> Inl (UnknownPool poolID)
              | Some a \<Rightarrow> Inr (ts, [DispatchFrameComplete (target (ts a))]))
         | ReleaseBuffer poolID bid \<Rightarrow>
             (case m_targetMap b poolID of
                None \<Rightarrow> Inl (UnknownPool poolID)
              | Some a \<Rightarrow> Inr (ts(a := releaseBuffer poolID bid (ts a)), []))
         | _ \<Rightarrow> Inr (ts, [])))"

text \<open>
  \<^verbatim>\<open>EGLTarget::initialize\<close> for the target at address \<open>self\<close>: the request goes out on the
  backend's channel, and \<^verbatim>\<open>sendAndReceiveMessage\<close> passes what the blocking receive
  returned (\<open>len\<close> bytes holding \<open>reply\<close>) to the handler only when it is a whole frame.
\<close>

definition initialize_reply ::
  "nat \<Rightarrow> nat \<Rightarrow> message \<times> nat \<Rightarrow> RendererBackend \<times> EGLTarget \<times> event list
     \<Rightarrow> RendererBackend \<times> EGLTarget \<times> event list" where
  "initialize_reply Message_size self received st =
     (let (msg, size) = received; (b, s, evs) = st in
      if size \<noteq> Message_size then st
      else
        (case msg of
           PoolConstructionReply poolID \<Rightarrow>
             (registerEGLTarget poolID self b, s\<lparr>buffers_poolID := poolID\<rparr>,
              evs @ [Sent TargetChannel (RegisterPool poolID)])
         | _ \<Rightarrow> st))"

definition initialize ::
  "nat \<Rightarrow> nat \<Rightarrow> nat \<Rightarrow> u32 \<Rightarrow> u32 \<Rightarrow> int \<Rightarrow> message \<Rightarrow> RendererBackend \<Rightarrow> EGLTarget
     \<Rightarrow> RendererBackend \<times> EGLTarget \<times> event list" where
  "initialize Message_size self backend width height len reply b s =
     (let s1 = s\<lparr>m_backend := Some backend, renderer_width := width,
                 renderer_height := height\<rparr>;
          st = (b, s1, [Sent BackendChannel PoolConstruction])
      in if len = int Message_size
         then initialize_reply Message_size self (reply, Message_size) st
         else st)"

section \<open>The channel\<close>

text \<open>
  The readiness callbacks. \<open>readable\<close> is \<^verbatim>\<open>condition & G_IO_IN\<close>, \<open>len\<close> what the
  receive call returned and \<open>buf\<close> the frame it left in the buffer. The result is the
  callback's return value (\<open>False\<close> removes the source from the main loop) and the call of
  \<^verbatim>\<open>handleMessage\<close> it made, if any: the handler, the buffer and the size.
\<close>

definition Host_socketCallback ::
  "nat \<Rightarrow> nat option \<Rightarrow> bool \<Rightarrow> int \<Rightarrow> message
     \<Rightarrow> fatal + bool \<times> (nat \<times> message \<times> nat) option" where
  "Host_socketCallback Message_size m_handler readable len buf =
     (if \<not> readable then Inr (True, None)
      else if len = - 1 then Inr (False, None)
      else if len = int Message_size then
        (case m_handler of
           None \<Rightarrow> Inl InvalidPointer
         | Some h \<Rightarrow> Inr (True, Some (h, buf, Message_size)))
      else Inr (True, None))"

definition Client_socketCallback ::
  "nat \<Rightarrow> nat option \<Rightarrow> bool \<Rightarrow> int \<Rightarrow> message \<Rightarrow> bool \<times> (nat \<times> message \<times> nat) option" where
  "Client_socketCallback Message_size m_handler readable len buf =
     (if \<not> readable then (True, None)
      else if len = - 1 then (False, None)
      else
        (case m_handler of
           Some h \<Rightarrow>
             if len = int Message_size then (True, Some (h, buf, Message_size))
             else (True, None)
         | None \<Rightarrow> (True, None)))"

text \<open>
  Modelled from the spec: \<^verbatim>\<open>NO_ERROR\<close> is declared outside the sources at hand; the
  specification has the call return zero on success.
\<close>

definition NO_ERROR :: int where "NO_ERROR = 0"

text \<open>
  One call of \<^verbatim>\<open>sendmsg\<close> is its return value and the \<^verbatim>\<open>errno\<close> it leaves. The
  do-while loop of \<^verbatim>\<open>sendFileDescriptor\<close> runs on the outcomes of the calls one after
  the other and yields the last one with the number of calls made, or \<open>None\<close> when every
  outcome supplied is an interrupted call: the loop has not ended.
\<close>

fun sendmsgLoop :: "(int \<times> int) list \<Rightarrow> ((int \<times> int) \<times> nat) option" where
  "sendmsgLoop [] = None"
| "sendmsgLoop ((result, errno) # os) =
     (if result = - 1 \<and> errno = EINTR
      then map_option (\<lambda>(r, n). (r, Suc n)) (sendmsgLoop os)
      else Some ((result, errno), 1))"

text \<open>The value returned, with the number of \<^verbatim>\<open>sendmsg\<close> calls it took.\<close>

definition sendFileDescriptor :: "int \<Rightarrow> (int \<times> int) list \<Rightarrow> (int \<times> nat) option" where
  "sendFileDescriptor fd os =
     (case sendmsgLoop os of
        None \<Rightarrow> None
      | Some ((result, errno), n) \<Rightarrow>
          Some (if result = - 1 then - errno else NO_ERROR, n))"

section \<open>Runs of a target\<close>

text \<open>
  The calls the rendering frontend and the backend make on one target, and a run of them
  one after the other. A run ends with the first call that ends the process or does not
  return; otherwise it yields the last state and everything the calls did, in order.
\<close>

datatype op =
    FrameWillRender render_env
  | FrameRendered
  | Release u32 u32
  | Resize u32 u32
  | Deinitialize

fun step :: "op \<Rightarrow> EGLTarget \<Rightarrow> (fatal + EGLTarget \<times> event list) option" where
  "step (FrameWillRender env) s = frameWillRender env s"
| "step FrameRendered s = Some (frameRendered s)"
| "step (Release poolID b) s = Some (Inr (releaseBuffer poolID b s, []))"
| "step (Resize width height) s = Some (Inr (resize width height s))"
| "step Deinitialize s = Some (Inr (deinitialize s))"

fun run :: "op list \<Rightarrow> EGLTarget \<Rightarrow> (fatal + EGLTarget \<times> event list) option" where
  "run [] s = Some (Inr (s, []))"
| "run (c # cs) s =
     (case step c s of
        None \<Rightarrow> None
      | Some (Inl e) \<Rightarrow> Some (Inl e)
      | Some (Inr (s1, evs1)) \<Rightarrow>
          (case run cs s1 of
             None \<Rightarrow> None
           | Some (Inl e) \<Rightarrow> Some (Inl e)
           | Some (Inr (s2, evs2)) \<Rightarrow> Some (Inr (s2, evs1 @ evs2))))"

text \<open>The calls that purge the pool end an epoch; the others stay within it.\<close>

fun purges :: "op \<Rightarrow> bool" where
  "purges (Resize width height) = True"
| "purges Deinitialize = True"
| "purges _ = False"

text \<open>
  An event that announces the buffer with id \<open>b\<close> to the host, and one that is a call of
  the allocator that left a handle in the slot with id \<open>b\<close>.
\<close>

fun announces :: "u32 \<Rightarrow> event \<Rightarrow> bool" where
  "announces b (Sent c (BufferAllocation poolID b')) = (b' = b)"
| "announces b _ = False"

fun creates :: "u32 \<Rightarrow> event \<Rightarrow> bool" where
  "creates b (Allocate b' r (Some h)) = (b' = b)"
| "creates b _ = False"

section \<open>Example states\<close>

text \<open>Answers of the collaborators: an allocation that succeeds, and one that fails.\<close>

definition env_ok :: "AHardwareBuffer \<Rightarrow> render_env" where
  "env_ok h =
     \<lparr>gen_framebuffer = 1, allocate_ret = 0, allocate_out = Some h,
      create_image = Some (h + 1), gen_renderbuffers = (5, 6),
      send_handle_rets = [- 11, 0]\<rparr>"

definition env_fail :: render_env where
  "env_fail =
     \<lparr>gen_framebuffer = 1, allocate_ret = - 12, allocate_out = None,
      create_image = None, gen_renderbuffers = (0, 0), send_handle_rets = []\<rparr>"

text \<open>A new target at address 1 after \<^verbatim>\<open>initialize\<close> got pool id 7 from the host.\<close>

definition target7 :: EGLTarget where
  "target7 =
     fst (snd (initialize 32 1 0 640 480 32 (PoolConstructionReply 7)
                 \<lparr>m_targetMap = Map.empty\<rparr> (EGLTarget_new 1)))"

definition backend7 :: RendererBackend where
  "backend7 =
     fst (initialize 32 1 0 640 480 32 (PoolConstructionReply 7)
            \<lparr>m_targetMap = Map.empty\<rparr> (EGLTarget_new 1))"

text \<open>The same target with every slot locked, and with every slot but the third.\<close>

definition saturated7 :: EGLTarget where
  "saturated7 = target7\<lparr>buffers_pool := map (\<lambda>b. b\<lparr>locked := True\<rparr>) (buffers_pool target7)\<rparr>"

definition busy7 :: EGLTarget where
  "busy7 = saturated7\<lparr>buffers_pool := (buffers_pool saturated7)
              [2 := (buffers_pool saturated7 ! 2)\<lparr>locked := False, object := Some 40\<rparr>]\<rparr>"

text \<open>
  A store with the saturated target at address 1, where \<open>backend7\<close> has it registered,
  and a second target at address 2.
\<close>

definition store7 :: targets where
  "store7 = (\<lambda>a. EGLTarget_new a)(1 := saturated7, 2 := EGLTarget_new 5)"

text \<open>
  The target after a \<^verbatim>\<open>frameWillRender\<close> whose allocation failed: slot 0 is current
  and has no buffer.
\<close>

definition unbacked7 :: EGLTarget where
  "unbacked7 =
     target7\<lparr>renderer_initialized := True, renderer_framebuffer := 1,
             buffers_current := Some 0\<rparr>"

text \<open>
  The scenario of the specification: acquire slot 0, commit it, have the host release it,
  acquire and commit again. \<open>acquired7\<close> is the target after the first acquire and
  \<open>committed7\<close> the target at the end.
\<close>

definition reuse_run :: "op list" where
  "reuse_run =
     [FrameWillRender (env_ok 100), FrameRendered, Release 7 0,
      FrameWillRender (env_ok 200), FrameRendered]"

definition acquired7 :: EGLTarget where
  "acquired7 =
     target7\<lparr>renderer_initialized := True, renderer_framebuffer := 1,
             buffers_current := Some 0,
             buffers_pool :=
               [\<lparr>bufferID = 0, locked = False, object = Some 100, egl_image = Some 101,
                 gl_colorBuffer = 5, gl_dsBuffer = 6\<rparr>,
                Buffer_default 1, Buffer_default 2, Buffer_default 3]\<rparr>"

definition committed7 :: EGLTarget where
  "committed7 =
     acquired7\<lparr>buffers_current := None,
               buffers_pool :=
                 [\<lparr>bufferID = 0, locked = True, object = Some 100, egl_image = Some 101,
                   gl_colorBuffer = 5, gl_dsBuffer = 6\<rparr>,
                  Buffer_default 1, Buffer_default 2, Buffer_default 3]\<rparr>"

text \<open>
  Four frames rendered and committed with no release in between, and the target they
  leave: every slot holds a buffer and is locked.
\<close>

definition saturation_run :: "op list" where
  "saturation_run =
     [FrameWillRender (env_ok 100), FrameRendered, FrameWillRender (env_ok 110), FrameRendered,
      FrameWillRender (env_ok 120), FrameRendered, FrameWillRender (env_ok 130), FrameRendered]"

definition full7 :: EGLTarget where
  "full7 =
     target7\<lparr>renderer_initialized := True, renderer_framebuffer := 1,
             buffers_pool :=
               [\<lparr>bufferID = 0, locked = True, object = Some 100, egl_image = Some 101,
                 gl_colorBuffer = 5, gl_dsBuffer = 6\<rparr>,
                \<lparr>bufferID = 1, locked = True, object = Some 110, egl_image = Some 111,
                 gl_colorBuffer = 5, gl_dsBuffer = 6\<rparr>,
                \<lparr>bufferID = 2, locked = True, object = Some 120, egl_image = Some 121,
                 gl_colorBuffer = 5, gl_dsBuffer = 6\<rparr>,
                \<lparr>bufferID = 3, locked = True, object = Some 130, egl_image = Some 131,
                 gl_colorBuffer = 5, gl_dsBuffer = 6\<rparr>]\<rparr>"

section \<open>The example states, written out\<close>

lemma target7_eq:
  "target7 =
     \<lparr>target = 1, m_backend = Some 0, renderer_initialized = False,
      renderer_width = 640, renderer_height = 480, renderer_framebuffer = 0,
      buffers_current = None, buffers_poolID = 7,
      buffers_pool = [Buffer_default 0, Buffer_default 1, Buffer_default 2, Buffer_default 3]\<rparr>"
  by (simp add: target7_def initialize_def initialize_reply_def EGLTarget_new_def upt_rec Let_def)

lemma backend7_eq: "backend7 = \<lparr>m_targetMap = [7 \<mapsto> 1]\<rparr>"
  by (simp add: backend7_def initialize_def initialize_reply_def registerEGLTarget_def Let_def)

lemmas examples =
  target7_eq backend7_eq saturated7_def busy7_def unbacked7_def acquired7_def
  committed7_def reuse_run_def saturation_run_def full7_def Buffer_default_def
  env_ok_def env_fail_def

section \<open>Acquiring a slot\<close>

lemma firstUnlocked_None: "firstUnlocked bs k = None \<longleftrightarrow> (\<forall>b\<in>set bs. locked b)"
  by (induction bs arbitrary: k) auto

lemma firstUnlocked_Some:
  "firstUnlocked bs k = Some n \<Longrightarrow>
     k \<le> n \<and> n - k < length bs \<and> \<not> locked (bs ! (n - k)) \<and> (\<forall>j<n - k. locked (bs ! j))"
proof (induction bs arbitrary: k)
  case Nil
  then show ?case by simp
next
  case (Cons b bs)
  show ?case
  proof (cases "locked b")
    case True
    with Cons.prems have "firstUnlocked bs (Suc k) = Some n" by simp
    from Cons.IH [OF this] have ih: "Suc k \<le> n" "n - Suc k < length bs"
      "\<not> locked (bs ! (n - Suc k))" "\<forall>j<n - Suc k. locked (bs ! j)" by auto
    from ih(1) have eq: "n - k = Suc (n - Suc k)" by simp
    have "\<forall>j<n - k. locked ((b # bs) ! j)"
    proof (intro allI impI)
      fix j assume "j < n - k"
      then show "locked ((b # bs) ! j)" using True ih(4) eq by (cases j) auto
    qed
    then show ?thesis using ih eq by simp
  next
    case False
    with Cons.prems show ?thesis by simp
  qed
qed

lemma realizeCurrent_None:
  "realizeCurrent env i s = None \<Longrightarrow> sendHandleLoop (send_handle_rets env) = None"
  by (auto simp: realizeCurrent_def Let_def split: if_splits option.splits)

lemma realizeCurrent_Inl:
  "realizeCurrent env i s = Some (Inl e) \<Longrightarrow>
     e = InvalidPointer \<and> (length (buffers_pool s) \<le> i \<or> m_backend s = None)"
  by (auto simp: realizeCurrent_def Let_def split: if_splits option.splits)

lemma realizeCurrent_Inr:
  "realizeCurrent env i s = Some (Inr (s', evs)) \<Longrightarrow>
     i < length (buffers_pool s) \<and>
     buffers_current s' = buffers_current s \<and> m_backend s' = m_backend s \<and>
     buffers_poolID s' = buffers_poolID s \<and>
     length (buffers_pool s') = length (buffers_pool s) \<and>
     (\<forall>j. j \<noteq> i \<longrightarrow> buffers_pool s' ! j = buffers_pool s ! j) \<and>
     bufferID (buffers_pool s' ! i) = bufferID (buffers_pool s ! i) \<and>
     locked (buffers_pool s' ! i) = locked (buffers_pool s ! i)"
  by (auto simp: realizeCurrent_def Let_def split: if_splits option.splits)

lemma realizeCurrent_returns:
  "i < length (buffers_pool s) \<Longrightarrow> m_backend s \<noteq> None \<Longrightarrow>
   sendHandleLoop (send_handle_rets env) \<noteq> None \<Longrightarrow>
     \<exists>s' evs. realizeCurrent env i s = Some (Inr (s', evs))"
  by (auto simp: realizeCurrent_def Let_def split: if_splits option.splits)

text \<open>
  Claim C1. When every slot of the pool is locked and no slot is current,
  \<^verbatim>\<open>frameWillRender\<close> ends the process with \<^verbatim>\<open>std::abort\<close>: it returns no state and
  picks no slot.
\<close>

theorem frameWillRender_saturated_aborts:
  "\<forall>b\<in>set (buffers_pool s). locked b \<Longrightarrow> buffers_current s = None \<Longrightarrow>
     frameWillRender env s = Some (Inl Abort)"
  using firstUnlocked_None [of "buffers_pool s" 0]
  by (simp add: frameWillRender_def Let_def)

theorem frameWillRender_saturated_aborts_witness:
  "map locked (buffers_pool full7) = [True, True, True, True] \<and>
   buffers_current full7 = None \<and>
   map_option (map_sum id fst) (run saturation_run target7) = Some (Inr full7) \<and>
   frameWillRender (env_ok 140) full7 = Some (Inl Abort) \<and>
   run (saturation_run @ [FrameWillRender (env_ok 140)]) target7 = Some (Inl Abort)"
  using frameWillRender_saturated_aborts [of full7 "env_ok 140"]
  by (simp add: examples frameWillRender_def realizeCurrent_def frameRendered_def
      EAGAIN_def Let_def)

text \<open>
  Claim C2. When some slot is unlocked, \<^verbatim>\<open>frameWillRender\<close> makes the unlocked slot
  of lowest index the current one: every slot before it is locked, and the state the
  call returns has it as current. The call returns unless the transfer of a fresh handle
  keeps answering \<^verbatim>\<open>-EAGAIN\<close>, or the target has no backend to announce it to.
\<close>

theorem frameWillRender_selects_lowest_unlocked:
  assumes "\<exists>b\<in>set (buffers_pool s). \<not> locked b"
  shows "\<exists>i<length (buffers_pool s).
           \<not> locked (buffers_pool s ! i) \<and> (\<forall>j<i. locked (buffers_pool s ! j)) \<and>
           (case frameWillRender env s of
              None \<Rightarrow> sendHandleLoop (send_handle_rets env) = None
            | Some (Inl e) \<Rightarrow> e = InvalidPointer \<and> m_backend s = None
            | Some (Inr (s', evs)) \<Rightarrow> buffers_current s' = Some i)"
proof -
  from assms obtain i where i: "firstUnlocked (buffers_pool s) 0 = Some i"
    using firstUnlocked_None [of "buffers_pool s" 0] by (cases "firstUnlocked (buffers_pool s) 0") auto
  from firstUnlocked_Some [OF i]
  have low: "i < length (buffers_pool s)" "\<not> locked (buffers_pool s ! i)"
    "\<forall>j<i. locked (buffers_pool s ! j)" by auto
  define s1 where "s1 = (if \<not> renderer_initialized s
      then s\<lparr>renderer_initialized := True, renderer_framebuffer := gen_framebuffer env\<rparr> else s)"
  define s2 where "s2 = s1\<lparr>buffers_current := Some i\<rparr>"
  have pool: "buffers_pool s2 = buffers_pool s" and bk: "m_backend s2 = m_backend s"
    and cur: "buffers_current s2 = Some i"
    by (simp_all add: s1_def s2_def)
  have fwr: "frameWillRender env s = realizeCurrent env i s2"
    using i by (simp add: frameWillRender_def Let_def s1_def s2_def)
  have "case realizeCurrent env i s2 of
          None \<Rightarrow> sendHandleLoop (send_handle_rets env) = None
        | Some (Inl e) \<Rightarrow> e = InvalidPointer \<and> m_backend s = None
        | Some (Inr (s', evs)) \<Rightarrow> buffers_current s' = Some i"
  proof (cases "realizeCurrent env i s2")
    case None
    then show ?thesis using realizeCurrent_None by simp
  next
    case (Some r)
    show ?thesis
    proof (cases r)
      case (Inl e)
      with Some realizeCurrent_Inl [of env i s2 e] low(1) pool bk show ?thesis by simp
    next
      case (Inr p)
      obtain s' evs where p: "p = (s', evs)" by (cases p)
      with Some Inr realizeCurrent_Inr [of env i s2 s' evs] cur show ?thesis by simp
    qed
  qed
  with fwr low show ?thesis by auto
qed

theorem frameWillRender_selects_lowest_unlocked_witness:
  "(\<exists>b\<in>set (buffers_pool busy7). \<not> locked b) \<and>
   frameWillRender (env_ok 100) busy7 =
     Some (Inr (busy7\<lparr>renderer_initialized := True, renderer_framebuffer := 1,
                       buffers_current := Some 2\<rparr>, []))"
  using frameWillRender_selects_lowest_unlocked [of busy7 "env_ok 100"]
  by (simp add: examples frameWillRender_def realizeCurrent_def Let_def)

section \<open>Releasing a slot\<close>

lemma unlockFirst_map:
  "distinct (map bufferID xs) \<Longrightarrow>
     unlockFirst b xs = map (\<lambda>x. if bufferID x = b then x\<lparr>locked := False\<rparr> else x) xs"
proof (induction xs)
  case Nil
  then show ?case by simp
next
  case (Cons x xs)
  show ?case
  proof (cases "bufferID x = b")
    case True
    with Cons.prems have "\<forall>y\<in>set xs. bufferID y \<noteq> b" by (auto simp: image_iff)
    then have "map (\<lambda>x. if bufferID x = b then x\<lparr>locked := False\<rparr> else x) xs = xs"
      by (simp add: map_idI)
    with True show ?thesis by simp
  next
    case False
    with Cons show ?thesis by simp
  qed
qed

lemma unlockFirst_idle:
  "\<forall>x\<in>set xs. bufferID x = b \<longrightarrow> \<not> locked x \<Longrightarrow> unlockFirst b xs = xs"
  by (induction xs) auto

text \<open>
  Claim C4. A release naming another pool than the session's changes nothing. A release
  naming the session's pool clears \<open>locked\<close> on the slot whose id is the buffer id and
  leaves every other slot, and every other field, as it was; when that slot is already
  unlocked the state does not change at all. Slot ids are distinct, as the constructor
  makes them.
\<close>

theorem releaseBuffer_unlocks_named_slot:
  "distinct (map bufferID (buffers_pool s)) \<Longrightarrow>
     (poolID \<noteq> buffers_poolID s \<longrightarrow> releaseBuffer poolID b s = s) \<and>
     (poolID = buffers_poolID s \<longrightarrow>
        releaseBuffer poolID b s =
          s\<lparr>buffers_pool :=
              map (\<lambda>x. if bufferID x = b then x\<lparr>locked := False\<rparr> else x) (buffers_pool s)\<rparr> \<and>
        ((\<forall>x\<in>set (buffers_pool s). bufferID x = b \<longrightarrow> \<not> locked x) \<longrightarrow>
           releaseBuffer poolID b s = s))"
proof -
  assume d: "distinct (map bufferID (buffers_pool s))"
  have other: "poolID \<noteq> buffers_poolID s \<longrightarrow> releaseBuffer poolID b s = s"
    by (simp add: releaseBuffer_def)
  have named: "poolID = buffers_poolID s \<longrightarrow>
      releaseBuffer poolID b s =
        s\<lparr>buffers_pool :=
            map (\<lambda>x. if bufferID x = b then x\<lparr>locked := False\<rparr> else x) (buffers_pool s)\<rparr>"
    using d by (simp add: releaseBuffer_def unlockFirst_map)
  have idle: "poolID = buffers_poolID s \<longrightarrow>
      (\<forall>x\<in>set (buffers_pool s). bufferID x = b \<longrightarrow> \<not> locked x) \<longrightarrow>
      releaseBuffer poolID b s = s"
    by (simp add: releaseBuffer_def unlockFirst_idle)
  from other named idle show ?thesis by blast
qed

theorem releaseBuffer_unlocks_named_slot_witness:
  "distinct (map bufferID (buffers_pool saturated7)) \<and>
   releaseBuffer 8 2 saturated7 = saturated7 \<and>
   releaseBuffer 7 2 saturated7 =
     saturated7\<lparr>buffers_pool :=
       [Buffer_default 0\<lparr>locked := True\<rparr>, Buffer_default 1\<lparr>locked := True\<rparr>,
        Buffer_default 2, Buffer_default 3\<lparr>locked := True\<rparr>]\<rparr> \<and>
   releaseBuffer 7 2 (releaseBuffer 7 2 saturated7) = releaseBuffer 7 2 saturated7"
  using releaseBuffer_unlocks_named_slot [of saturated7 8 2]
    releaseBuffer_unlocks_named_slot [of saturated7 7 2]
    releaseBuffer_unlocks_named_slot [of "releaseBuffer 7 2 saturated7" 7 2]
  by (simp add: saturated7_def target7_def initialize_def initialize_reply_def
      EGLTarget_new_def Buffer_default_def registerEGLTarget_def upt_rec Let_def)

section \<open>Committing a frame\<close>

text \<open>
  Claim C8, as the code has it. With a current slot, \<^verbatim>\<open>frameRendered\<close> locks that slot
  and clears the current pointer; it sends \<open>BufferCommit\<close> with the pool id and the
  slot's id on the backend's channel when the slot has a buffer, and sends nothing when
  it has none. Nothing else changes.
\<close>

theorem frameRendered_commits_backed_slot:
  "buffers_current s = Some i \<Longrightarrow> i < length (buffers_pool s) \<Longrightarrow>
   (object (buffers_pool s ! i) \<noteq> None \<longrightarrow> m_backend s \<noteq> None) \<Longrightarrow>
     frameRendered s =
       Inr (s\<lparr>buffers_pool := (buffers_pool s)[i := (buffers_pool s ! i)\<lparr>locked := True\<rparr>],
              buffers_current := None\<rparr>,
            if object (buffers_pool s ! i) = None then []
            else [Sent BackendChannel
                    (BufferCommit (buffers_poolID s) (bufferID (buffers_pool s ! i)))])"
  by (auto simp: frameRendered_def Let_def split: option.splits)

theorem frameRendered_commits_backed_slot_witness:
  "buffers_current (busy7\<lparr>buffers_current := Some 2\<rparr>) = Some 2 \<and>
   2 < length (buffers_pool (busy7\<lparr>buffers_current := Some 2\<rparr>)) \<and>
   object (buffers_pool (busy7\<lparr>buffers_current := Some 2\<rparr>) ! 2) \<noteq> None \<and>
   m_backend (busy7\<lparr>buffers_current := Some 2\<rparr>) \<noteq> None \<and>
   frameRendered (busy7\<lparr>buffers_current := Some 2\<rparr>) =
     Inr (saturated7\<lparr>buffers_pool := (buffers_pool saturated7)
            [2 := (buffers_pool saturated7 ! 2)\<lparr>object := Some 40\<rparr>]\<rparr>,
          [Sent BackendChannel (BufferCommit 7 2)])"
  using frameRendered_commits_backed_slot [of "busy7\<lparr>buffers_current := Some 2\<rparr>" 2]
  by (simp add: examples)

text \<open>
  Claim C8 as stated fails when the current slot has no buffer. After a
  \<^verbatim>\<open>frameWillRender\<close> whose allocation failed, slot 0 is current; \<^verbatim>\<open>frameRendered\<close>
  locks it and clears the current pointer, and sends no \<open>BufferCommit\<close>.
\<close>

theorem frameRendered_unbacked_counterexample:
  "frameWillRender env_fail target7 = Some (Inr (unbacked7, [Allocate 0 (- 12) None])) \<and>
   buffers_current unbacked7 = Some 0 \<and>
   frameRendered unbacked7 =
     Inr (target7\<lparr>renderer_initialized := True, renderer_framebuffer := 1,
                  buffers_pool := [Buffer_default 0\<lparr>locked := True\<rparr>, Buffer_default 1,
                                   Buffer_default 2, Buffer_default 3]\<rparr>, [])"
  by (simp add: examples frameWillRender_def realizeCurrent_def frameRendered_def Let_def)

section \<open>One allocation per slot and epoch\<close>

lemma creates_Allocate: "creates b (Allocate b' r out) \<longleftrightarrow> b' = b \<and> out \<noteq> None"
  by (cases out) auto

lemma filter_announces_SendHandle: "filter (announces b) (replicate n (SendHandle h)) = []"
  by (induction n) auto

lemma filter_creates_SendHandle: "filter (creates b) (replicate n (SendHandle h)) = []"
  by (induction n) auto

lemma pool_ok_distinct: "pool_ok s \<Longrightarrow> distinct (map bufferID (buffers_pool s))"
  by (simp add: pool_ok_def)

lemma pool_ok_new: "pool_ok (EGLTarget_new t)"
  by (simp add: pool_ok_def EGLTarget_new_def Buffer_default_def upt_rec)

lemma realizeCurrent_ids:
  "realizeCurrent env k s = Some (Inr (s', evs)) \<Longrightarrow>
     map bufferID (buffers_pool s') = map bufferID (buffers_pool s)"
  by (auto simp: realizeCurrent_def Let_def map_update list_update_same_conv
      split: if_splits option.splits)

text \<open>What a returning \<^verbatim>\<open>frameWillRender\<close> did from line 287 on, by the slot's buffer.\<close>

lemma realizeCurrent_events:
  "realizeCurrent env k s = Some (Inr (s', evs)) \<Longrightarrow>
     (object (buffers_pool s ! k) \<noteq> None \<and> s' = s \<and> evs = []) \<or>
     (object (buffers_pool s ! k) = None \<and>
      object (buffers_pool s' ! k) = allocate_out env \<and>
      (evs = [Allocate (bufferID (buffers_pool s ! k)) (allocate_ret env) (allocate_out env)] \<or>
       (allocate_out env \<noteq> None \<and>
        (\<exists>n h. evs =
           [Allocate (bufferID (buffers_pool s ! k)) (allocate_ret env) (allocate_out env),
            Sent BackendChannel
              (BufferAllocation (buffers_poolID s) (bufferID (buffers_pool s ! k)))]
           @ replicate n (SendHandle h)))))"
  by (auto simp: realizeCurrent_def Let_def split: if_splits option.splits)

lemma realizeCurrent_epoch:
  assumes r: "realizeCurrent env k s = Some (Inr (s', evs))"
    and d: "distinct (map bufferID (buffers_pool s))"
    and i: "i < length (buffers_pool s)"
  shows "(object (buffers_pool s ! i) \<noteq> None \<longrightarrow>
            object (buffers_pool s' ! i) = object (buffers_pool s ! i) \<and>
            filter (announces (bufferID (buffers_pool s ! i))) evs = [] \<and>
            filter (creates (bufferID (buffers_pool s ! i))) evs = []) \<and>
         (object (buffers_pool s ! i) = None \<longrightarrow>
            length (filter (announces (bufferID (buffers_pool s ! i))) evs)
              \<le> (if object (buffers_pool s' ! i) = None then 0 else 1) \<and>
            length (filter (creates (bufferID (buffers_pool s ! i))) evs)
              \<le> (if object (buffers_pool s' ! i) = None then 0 else 1))"
proof (cases "i = k")
  case True
  from realizeCurrent_events [OF r] show ?thesis
    unfolding True
    by (auto simp: creates_Allocate filter_announces_SendHandle filter_creates_SendHandle)
next
  case False
  from realizeCurrent_Inr [OF r] have k: "k < length (buffers_pool s)"
    and same: "buffers_pool s' ! i = buffers_pool s ! i" using False by auto
  from d i k False have ne: "bufferID (buffers_pool s ! k) \<noteq> bufferID (buffers_pool s ! i)"
    by (simp add: distinct_conv_nth)
  from realizeCurrent_events [OF r] ne same show ?thesis
    by (auto simp: creates_Allocate filter_announces_SendHandle filter_creates_SendHandle)
qed

lemma frameWillRender_Inr:
  assumes "frameWillRender env s = Some (Inr (s', evs))"
  shows "\<exists>k s2. buffers_pool s2 = buffers_pool s \<and> buffers_current s2 = Some k \<and>
            realizeCurrent env k s2 = Some (Inr (s', evs))"
proof -
  define s1 where "s1 = (if \<not> renderer_initialized s
      then s\<lparr>renderer_initialized := True, renderer_framebuffer := gen_framebuffer env\<rparr> else s)"
  define s2 where "s2 = (case firstUnlocked (buffers_pool s1) 0 of
      None \<Rightarrow> s1 | Some i \<Rightarrow> s1\<lparr>buffers_current := Some i\<rparr>)"
  have p: "buffers_pool s2 = buffers_pool s"
    by (simp add: s1_def s2_def split: option.splits)
  have f: "frameWillRender env s =
      (case buffers_current s2 of None \<Rightarrow> Some (Inl Abort) | Some k \<Rightarrow> realizeCurrent env k s2)"
    unfolding frameWillRender_def Let_def s2_def s1_def by (rule refl)
  show ?thesis
  proof (cases "buffers_current s2")
    case None
    with f assms show ?thesis by simp
  next
    case (Some k)
    with f assms p show ?thesis by auto
  qed
qed

lemma unlockFirst_ids: "map bufferID (unlockFirst b xs) = map bufferID xs"
  by (induction xs) auto

lemma unlockFirst_object: "map object (unlockFirst b xs) = map object xs"
  by (induction xs) auto

lemma nth_of_map_eq:
  "map f xs = map f ys \<Longrightarrow> i < length ys \<Longrightarrow> f (xs ! i) = f (ys ! i)"
  by (metis length_map nth_map)

text \<open>
  One call within an epoch, seen from slot \<open>i\<close>: the pool stays well formed; a buffer the
  slot has stays and is neither allocated nor announced again; a slot without buffer is
  given one and announced at most once, and only if it has a buffer afterwards.
\<close>

lemma step_epoch:
  assumes st: "step c s = Some (Inr (s', evs))" and np: "\<not> purges c"
    and ok: "pool_ok s" and i: "i < 4"
  shows "pool_ok s' \<and> bufferID (buffers_pool s' ! i) = bufferID (buffers_pool s ! i) \<and>
         (object (buffers_pool s ! i) \<noteq> None \<longrightarrow>
            object (buffers_pool s' ! i) = object (buffers_pool s ! i) \<and>
            filter (announces (bufferID (buffers_pool s ! i))) evs = [] \<and>
            filter (creates (bufferID (buffers_pool s ! i))) evs = []) \<and>
         (object (buffers_pool s ! i) = None \<longrightarrow>
            length (filter (announces (bufferID (buffers_pool s ! i))) evs)
              \<le> (if object (buffers_pool s' ! i) = None then 0 else 1) \<and>
            length (filter (creates (bufferID (buffers_pool s ! i))) evs)
              \<le> (if object (buffers_pool s' ! i) = None then 0 else 1))"
proof (cases c)
  case (FrameWillRender env)
  with st have "frameWillRender env s = Some (Inr (s', evs))" by simp
  from frameWillRender_Inr [OF this] obtain k s2 where
    p: "buffers_pool s2 = buffers_pool s" and r: "realizeCurrent env k s2 = Some (Inr (s', evs))"
    and c: "buffers_current s2 = Some k" by blast
  from ok have len: "length (buffers_pool s) = 4" and d: "distinct (map bufferID (buffers_pool s))"
    by (simp_all add: pool_ok_def)
  from realizeCurrent_Inr [OF r] have k: "k < 4" and c': "buffers_current s' = Some k"
    using p len c by auto
  from realizeCurrent_ids [OF r] p have ids: "map bufferID (buffers_pool s') = map bufferID (buffers_pool s)"
    by simp
  then have len': "length (buffers_pool s') = 4" using len by (metis length_map)
  have ok': "pool_ok s'"
    using ok ids len' c' k by (simp add: pool_ok_def)
  have id: "bufferID (buffers_pool s' ! i) = bufferID (buffers_pool s ! i)"
    using nth_of_map_eq [OF ids] i len by simp
  from realizeCurrent_epoch [OF r, of i] d i len p ok' id show ?thesis by simp
next
  case FrameRendered
  with st have fr: "frameRendered s = Inr (s', evs)" by simp
  then obtain k where k: "buffers_current s = Some k" "k < length (buffers_pool s)"
    and s': "s' = s\<lparr>buffers_pool := (buffers_pool s)[k := (buffers_pool s ! k)\<lparr>locked := True\<rparr>],
                   buffers_current := None\<rparr>"
    and evs: "evs = [] \<or> (\<exists>p b. evs = [Sent BackendChannel (BufferCommit p b)])"
    by (auto simp: frameRendered_def Let_def split: option.splits if_splits)
  have slot: "buffers_pool s' ! i =
      (if i = k then (buffers_pool s ! i)\<lparr>locked := True\<rparr> else buffers_pool s ! i)"
    using s' k(2) by (simp add: nth_list_update)
  have ids: "map bufferID (buffers_pool s') = map bufferID (buffers_pool s)"
    using s' by (simp add: map_update list_update_same_conv k(2))
  have ok': "pool_ok s'" using ok ids s' by (simp add: pool_ok_def)
  from ok' slot evs show ?thesis by auto
next
  case (Release p b)
  with st have s': "s' = releaseBuffer p b s" and evs: "evs = []" by simp_all
  have ids: "map bufferID (buffers_pool s') = map bufferID (buffers_pool s)"
    and obs: "map object (buffers_pool s') = map object (buffers_pool s)"
    and cur: "buffers_current s' = buffers_current s"
    by (simp_all add: s' releaseBuffer_def unlockFirst_ids unlockFirst_object)
  from ok have len: "length (buffers_pool s) = 4" by (simp add: pool_ok_def)
  from ids have len': "length (buffers_pool s') = 4" using len by (metis length_map)
  have ok': "pool_ok s'" using ok ids cur len' by (simp add: pool_ok_def)
  from nth_of_map_eq [OF ids] nth_of_map_eq [OF obs] i len ok' evs show ?thesis by simp
next
  case (Resize w h)
  with np show ?thesis by simp
next
  case Deinitialize
  with np show ?thesis by simp
qed

lemma run_Cons_Inr:
  "run (c # cs) s = Some (Inr (s', evs)) \<Longrightarrow>
     \<exists>s1 e1 e2. step c s = Some (Inr (s1, e1)) \<and> run cs s1 = Some (Inr (s', e2)) \<and>
                evs = e1 @ e2"
  by (auto split: option.splits sum.splits prod.splits)

lemma run_epoch:
  "pool_ok s \<Longrightarrow> \<forall>c\<in>set cs. \<not> purges c \<Longrightarrow> run cs s = Some (Inr (s', evs)) \<Longrightarrow> i < 4 \<Longrightarrow>
     pool_ok s' \<and> bufferID (buffers_pool s' ! i) = bufferID (buffers_pool s ! i) \<and>
     (object (buffers_pool s ! i) \<noteq> None \<longrightarrow>
        object (buffers_pool s' ! i) = object (buffers_pool s ! i) \<and>
        filter (announces (bufferID (buffers_pool s ! i))) evs = [] \<and>
        filter (creates (bufferID (buffers_pool s ! i))) evs = []) \<and>
     (object (buffers_pool s ! i) = None \<longrightarrow>
        length (filter (announces (bufferID (buffers_pool s ! i))) evs)
          \<le> (if object (buffers_pool s' ! i) = None then 0 else 1) \<and>
        length (filter (creates (bufferID (buffers_pool s ! i))) evs)
          \<le> (if object (buffers_pool s' ! i) = None then 0 else 1))"
proof (induction cs arbitrary: s evs)
  case Nil
  then show ?case by simp
next
  case (Cons c cs)
  from run_Cons_Inr [OF Cons.prems(3)] obtain s1 e1 e2 where
    st: "step c s = Some (Inr (s1, e1))" and rest: "run cs s1 = Some (Inr (s', e2))"
    and evs: "evs = e1 @ e2" by blast
  from Cons.prems(2) have np: "\<not> purges c" and nps: "\<forall>c\<in>set cs. \<not> purges c" by simp_all
  note first = step_epoch [OF st np Cons.prems(1) Cons.prems(4)]
  then have ok1: "pool_ok s1" by simp
  note later = Cons.IH [OF ok1 nps rest Cons.prems(4)]
  show ?case
  proof (cases "object (buffers_pool s ! i) = None")
    case False
    with first later evs show ?thesis by simp
  next
    case True
    show ?thesis
    proof (cases "object (buffers_pool s1 ! i) = None")
      case True
      with \<open>object (buffers_pool s ! i) = None\<close> first later evs show ?thesis by simp
    next
      case False
      with \<open>object (buffers_pool s ! i) = None\<close> first later evs show ?thesis by auto
    qed
  qed
qed

text \<open>
  Claim C3. In a run of calls without a purge (no \<^verbatim>\<open>resize\<close>, no \<^verbatim>\<open>deinitialize\<close>) on a
  well-formed target, each slot is announced with \<open>BufferAllocation\<close> at most once and is
  given a buffer by the allocator at most once. A slot that has its buffer when the run
  starts keeps that very buffer to the end, however often it is committed, released and
  acquired again, and the run neither allocates for it nor announces it.
\<close>

theorem slot_allocated_once_per_epoch:
  assumes "pool_ok s" and "\<forall>c\<in>set cs. \<not> purges c"
    and "run cs s = Some (Inr (s', evs))" and "i < 4"
  shows "length (filter (announces (bufferID (buffers_pool s ! i))) evs) \<le> 1 \<and>
         length (filter (creates (bufferID (buffers_pool s ! i))) evs) \<le> 1 \<and>
         (object (buffers_pool s ! i) \<noteq> None \<longrightarrow>
            object (buffers_pool s' ! i) = object (buffers_pool s ! i) \<and>
            filter (announces (bufferID (buffers_pool s ! i))) evs = [] \<and>
            filter (creates (bufferID (buffers_pool s ! i))) evs = [])"
proof (cases "object (buffers_pool s ! i) = None")
  case True
  with run_epoch [OF assms] show ?thesis by (simp split: if_splits)
next
  case False
  with run_epoch [OF assms] show ?thesis by simp
qed

theorem slot_allocated_once_per_epoch_witness:
  "pool_ok target7 \<and> pool_ok acquired7 \<and>
   map purges reuse_run = [False, False, False, False, False] \<and>
   run reuse_run target7 =
     Some (Inr (committed7,
       [Allocate 0 0 (Some 100), Sent BackendChannel (BufferAllocation 7 0),
        SendHandle 100, SendHandle 100,
        Sent BackendChannel (BufferCommit 7 0), Sent BackendChannel (BufferCommit 7 0)])) \<and>
   object (buffers_pool acquired7 ! 0) = Some 100 \<and>
   run (tl reuse_run) acquired7 =
     Some (Inr (committed7,
       [Sent BackendChannel (BufferCommit 7 0), Sent BackendChannel (BufferCommit 7 0)])) \<and>
   object (buffers_pool committed7 ! 0) = Some 100"
  using slot_allocated_once_per_epoch
      [where s = target7 and cs = reuse_run and s' = committed7 and i = 0 and evs =
        "[Allocate 0 0 (Some 100), Sent BackendChannel (BufferAllocation 7 0),
          SendHandle 100, SendHandle 100,
          Sent BackendChannel (BufferCommit 7 0), Sent BackendChannel (BufferCommit 7 0)]"]
    slot_allocated_once_per_epoch
      [where s = acquired7 and cs = "tl reuse_run" and s' = committed7 and i = 0 and evs =
        "[Sent BackendChannel (BufferCommit 7 0), Sent BackendChannel (BufferCommit 7 0)]"]
  by (simp add: examples pool_ok_def frameWillRender_def realizeCurrent_def frameRendered_def
      releaseBuffer_def EAGAIN_def Let_def)

section \<open>Purging the pool\<close>

lemma destroyBufferPool_eq:
  "destroyBufferPool bs = (map destroyBuffer bs, concat (map destroyBuffer_events bs))"
  by (induction bs) auto

lemma destroyBuffer_events_no_message: "Sent c m \<notin> set (destroyBuffer_events b)"
  by (simp add: destroyBuffer_events_def split: option.splits)

text \<open>
  Claim C5. A resize to the dimensions the target already has changes nothing and sends
  nothing. A resize to other dimensions stores them, leaves every slot free (no buffer,
  not locked, no image, no renderbuffers) under its old id, destroys every buffer, image
  and renderbuffer the slots held, and then sends \<open>PoolPurge\<close> with the pool id on the
  target's channel, the only message of the call.
\<close>

theorem resize_purges_on_change:
  "(renderer_width s = w \<and> renderer_height s = h \<longrightarrow> resize w h s = (s, [])) \<and>
   (\<not> (renderer_width s = w \<and> renderer_height s = h) \<longrightarrow>
     (\<exists>pool' evs.
        resize w h s =
          (s\<lparr>renderer_width := w, renderer_height := h, buffers_pool := pool'\<rparr>,
           evs @ [Sent TargetChannel (PoolPurge (buffers_poolID s))]) \<and>
        map bufferID pool' = map bufferID (buffers_pool s) \<and>
        (\<forall>b\<in>set pool'. object b = None \<and> \<not> locked b \<and> egl_image b = None \<and>
                        gl_colorBuffer b = 0 \<and> gl_dsBuffer b = 0) \<and>
        (\<forall>c m. Sent c m \<notin> set evs) \<and>
        (\<forall>b\<in>set (buffers_pool s).
           (\<forall>x. object b = Some x \<longrightarrow> ReleaseHandle x \<in> set evs) \<and>
           (\<forall>x. egl_image b = Some x \<longrightarrow> DestroyImage x \<in> set evs) \<and>
           (gl_colorBuffer b \<noteq> 0 \<longrightarrow> DeleteRenderbuffer (gl_colorBuffer b) \<in> set evs) \<and>
           (gl_dsBuffer b \<noteq> 0 \<longrightarrow> DeleteRenderbuffer (gl_dsBuffer b) \<in> set evs))))"
proof -
  have same: "renderer_width s = w \<and> renderer_height s = h \<longrightarrow> resize w h s = (s, [])"
    by (simp add: resize_def)
  define pool' where "pool' = map destroyBuffer (buffers_pool s)"
  define evs where "evs = concat (map destroyBuffer_events (buffers_pool s))"
  have res: "\<not> (renderer_width s = w \<and> renderer_height s = h) \<longrightarrow>
      resize w h s =
        (s\<lparr>renderer_width := w, renderer_height := h, buffers_pool := pool'\<rparr>,
         evs @ [Sent TargetChannel (PoolPurge (buffers_poolID s))])"
    by (simp add: resize_def destroyBufferPool_eq pool'_def evs_def)
  have ids: "map bufferID pool' = map bufferID (buffers_pool s)"
    by (simp add: pool'_def destroyBuffer_def)
  have free: "\<forall>b\<in>set pool'. object b = None \<and> \<not> locked b \<and> egl_image b = None \<and>
                        gl_colorBuffer b = 0 \<and> gl_dsBuffer b = 0"
    by (auto simp: pool'_def destroyBuffer_def)
  have quiet: "\<forall>c m. Sent c m \<notin> set evs"
    by (simp add: evs_def destroyBuffer_events_no_message)
  have gone: "\<forall>b\<in>set (buffers_pool s).
           (\<forall>x. object b = Some x \<longrightarrow> ReleaseHandle x \<in> set evs) \<and>
           (\<forall>x. egl_image b = Some x \<longrightarrow> DestroyImage x \<in> set evs) \<and>
           (gl_colorBuffer b \<noteq> 0 \<longrightarrow> DeleteRenderbuffer (gl_colorBuffer b) \<in> set evs) \<and>
           (gl_dsBuffer b \<noteq> 0 \<longrightarrow> DeleteRenderbuffer (gl_dsBuffer b) \<in> set evs)"
  proof
    fix b assume b: "b \<in> set (buffers_pool s)"
    have sub: "set (destroyBuffer_events b) \<subseteq> set evs"
      using b by (auto simp: evs_def)
    have "(\<forall>x. object b = Some x \<longrightarrow> ReleaseHandle x \<in> set (destroyBuffer_events b)) \<and>
          (\<forall>x. egl_image b = Some x \<longrightarrow> DestroyImage x \<in> set (destroyBuffer_events b)) \<and>
          (gl_colorBuffer b \<noteq> 0 \<longrightarrow>
             DeleteRenderbuffer (gl_colorBuffer b) \<in> set (destroyBuffer_events b)) \<and>
          (gl_dsBuffer b \<noteq> 0 \<longrightarrow>
             DeleteRenderbuffer (gl_dsBuffer b) \<in> set (destroyBuffer_events b))"
      by (simp add: destroyBuffer_events_def)
    with sub show "(\<forall>x. object b = Some x \<longrightarrow> ReleaseHandle x \<in> set evs) \<and>
           (\<forall>x. egl_image b = Some x \<longrightarrow> DestroyImage x \<in> set evs) \<and>
           (gl_colorBuffer b \<noteq> 0 \<longrightarrow> DeleteRenderbuffer (gl_colorBuffer b) \<in> set evs) \<and>
           (gl_dsBuffer b \<noteq> 0 \<longrightarrow> DeleteRenderbuffer (gl_dsBuffer b) \<in> set evs)"
      by blast
  qed
  from same res ids free quiet gone show ?thesis by blast
qed

theorem resize_purges_on_change_witness:
  "renderer_width busy7 = 640 \<and> renderer_height busy7 = 480 \<and>
   resize 640 480 busy7 = (busy7, []) \<and>
   resize 800 600 busy7 =
     (target7\<lparr>renderer_width := 800, renderer_height := 600\<rparr>,
      [ReleaseHandle 40, Sent TargetChannel (PoolPurge 7)])"
  using resize_purges_on_change [of busy7 640 480] resize_purges_on_change [of busy7 800 600]
  by (simp add: examples resize_def destroyBuffer_def destroyBuffer_events_def)

section \<open>The registry and dispatch\<close>

text \<open>
  Claim C6. A whole frame holding \<open>FrameComplete\<close> or \<open>ReleaseBuffer\<close> for a pool id
  without an entry in \<^verbatim>\<open>m_targetMap\<close> ends the process through \<^verbatim>\<open>g_error\<close>. With an
  entry, \<open>FrameComplete\<close> is dispatched to the frontend handle of the target at the
  registered address and \<open>ReleaseBuffer\<close> runs \<^verbatim>\<open>releaseBuffer\<close> on that target; what is
  at any other address stays as it was.
\<close>

theorem handleMessage_unknown_pool_is_fatal:
  "(m_targetMap b poolID = None \<longrightarrow>
      handleMessage n (FrameComplete poolID, n) b ts = Inl (UnknownPool poolID) \<and>
      handleMessage n (ReleaseBuffer poolID bid, n) b ts = Inl (UnknownPool poolID)) \<and>
   (\<forall>a. m_targetMap b poolID = Some a \<longrightarrow>
      handleMessage n (FrameComplete poolID, n) b ts =
        Inr (ts, [DispatchFrameComplete (target (ts a))]) \<and>
      handleMessage n (ReleaseBuffer poolID bid, n) b ts =
        Inr (ts(a := releaseBuffer poolID bid (ts a)), []))"
  by (simp add: handleMessage_def)

theorem handleMessage_unknown_pool_is_fatal_witness:
  "m_targetMap backend7 99 = None \<and>
   handleMessage 32 (FrameComplete 99, 32) backend7 store7 = Inl (UnknownPool 99) \<and>
   handleMessage 32 (ReleaseBuffer 99 0, 32) backend7 store7 = Inl (UnknownPool 99) \<and>
   m_targetMap backend7 7 = Some 1 \<and>
   handleMessage 32 (FrameComplete 7, 32) backend7 store7 =
     Inr (store7, [DispatchFrameComplete 1]) \<and>
   handleMessage 32 (ReleaseBuffer 7 2, 32) backend7 store7 =
     Inr (store7(1 := releaseBuffer 7 2 saturated7), [])"
  using handleMessage_unknown_pool_is_fatal
      [where b = backend7 and poolID = 99 and n = 32 and bid = 0 and ts = store7]
    handleMessage_unknown_pool_is_fatal
      [where b = backend7 and poolID = 7 and n = 32 and bid = 2 and ts = store7]
  by (simp add: backend7_eq target7_eq saturated7_def store7_def handleMessage_def)

text \<open>
  Claim C10. Registering a second target under a pool id that already has an entry
  leaves the backend as it was, also when the registration comes from the second
  target's \<^verbatim>\<open>initialize\<close>; \<open>FrameComplete\<close> and \<open>ReleaseBuffer\<close> for that pool id
  still reach the target registered first.
\<close>

theorem registerEGLTarget_keeps_first_target:
  "m_targetMap b poolID = Some a \<Longrightarrow>
     registerEGLTarget poolID a' b = b \<and>
     fst (initialize n a' bk w h (int n) (PoolConstructionReply poolID) b s') = b \<and>
     handleMessage n (FrameComplete poolID, n) (registerEGLTarget poolID a' b) ts =
       Inr (ts, [DispatchFrameComplete (target (ts a))]) \<and>
     handleMessage n (ReleaseBuffer poolID bid, n) (registerEGLTarget poolID a' b) ts =
       Inr (ts(a := releaseBuffer poolID bid (ts a)), [])"
  by (simp add: registerEGLTarget_def initialize_def initialize_reply_def handleMessage_def)

theorem registerEGLTarget_keeps_first_target_witness:
  "m_targetMap backend7 7 = Some 1 \<and>
   registerEGLTarget 7 2 backend7 = backend7 \<and>
   handleMessage 32 (FrameComplete 7, 32) (registerEGLTarget 7 2 backend7) store7 =
     Inr (store7, [DispatchFrameComplete 1]) \<and>
   handleMessage 32 (ReleaseBuffer 7 2, 32) (registerEGLTarget 7 2 backend7) store7 =
     Inr (store7(1 := releaseBuffer 7 2 saturated7), [])"
  using registerEGLTarget_keeps_first_target
    [where b = backend7 and poolID = 7 and a = 1 and a' = 2 and n = 32 and bid = 2
       and ts = store7]
  by (simp add: backend7_eq target7_eq saturated7_def store7_def handleMessage_def
      registerEGLTarget_def)

section \<open>The channel\<close>

text \<open>
  What both callbacks do with a read once the socket is readable and a handler is set:
  the handler is called exactly when the read returned a whole frame, and the callback
  returns \<open>False\<close>, which removes the source from the main loop, exactly when the read
  returned \<open>-1\<close>.
\<close>

lemma socketCallback_by_length:
  "Host_socketCallback n (Some h) True len buf =
     Inr (len \<noteq> - 1, if len = int n then Some (h, buf, n) else None) \<and>
   Client_socketCallback n (Some h) True len buf =
     (len \<noteq> - 1, if len = int n then Some (h, buf, n) else None)"
  by (simp add: Host_socketCallback_def Client_socketCallback_def)

text \<open>
  Claim C7 at the read of length zero, which is what the receive call returns once the
  peer has closed the connection. The claim has it end the source, as the failed read
  does. Both callbacks instead answer it as they answer a partial frame: no call of the
  handler, and \<open>True\<close>, so the source stays in the main loop.
\<close>

theorem socketCallback_zero_length_read_keeps_source:
  "Host_socketCallback 32 (Some 1) True 0 PoolConstruction = Inr (True, None) \<and>
   Host_socketCallback 32 (Some 1) True 0 PoolConstruction =
     Host_socketCallback 32 (Some 1) True 5 PoolConstruction \<and>
   Host_socketCallback 32 (Some 1) True (- 1) PoolConstruction = Inr (False, None) \<and>
   Client_socketCallback 32 (Some 1) True 0 PoolConstruction = (True, None) \<and>
   Client_socketCallback 32 (Some 1) True 0 PoolConstruction =
     Client_socketCallback 32 (Some 1) True 5 PoolConstruction \<and>
   Client_socketCallback 32 (Some 1) True (- 1) PoolConstruction = (False, None)"
  by (simp add: Host_socketCallback_def Client_socketCallback_def)

lemma sendmsgLoop_interrupted:
  "sendmsgLoop (replicate k (- 1, EINTR) @ os) =
     map_option (\<lambda>(r, n). (r, n + k)) (sendmsgLoop os)"
proof (induction k)
  case 0
  show ?case by (cases "sendmsgLoop os") auto
next
  case (Suc k)
  then show ?case by (cases "sendmsgLoop os") auto
qed

text \<open>
  Claim C9. Whatever descriptor is attached: as long as \<^verbatim>\<open>sendmsg\<close> fails with
  \<^verbatim>\<open>EINTR\<close> the call is made again and \<^verbatim>\<open>sendFileDescriptor\<close> has not returned; at
  the first other outcome it returns, after one call more than there were interruptions,
  with 0 when the send went through and with the negated \<^verbatim>\<open>errno\<close> when it failed, a
  negative value since error numbers are positive.
\<close>

theorem sendFileDescriptor_retries_then_reports:
  "sendFileDescriptor fd (replicate k (- 1, EINTR)) = None \<and>
   (result \<noteq> - 1 \<longrightarrow>
      sendFileDescriptor fd (replicate k (- 1, EINTR) @ (result, errno) # rest) =
        Some (0, Suc k)) \<and>
   (errno \<noteq> EINTR \<longrightarrow>
      sendFileDescriptor fd (replicate k (- 1, EINTR) @ (- 1, errno) # rest) =
        Some (- errno, Suc k) \<and>
      (0 < errno \<longrightarrow> - errno < 0))"
  using sendmsgLoop_interrupted [of k "[]"]
    sendmsgLoop_interrupted [of k "(result, errno) # rest"]
    sendmsgLoop_interrupted [of k "(- 1, errno) # rest"]
  by (simp add: sendFileDescriptor_def NO_ERROR_def)

theorem sendFileDescriptor_retries_then_reports_witness:
  "sendFileDescriptor 3 [(- 1, EINTR), (- 1, EINTR)] = None \<and>
   sendFileDescriptor 3 [(- 1, EINTR), (- 1, EINTR), (1, 0)] = Some (0, 3) \<and>
   sendFileDescriptor 3 [(- 1, EINTR), (- 1, EINTR), (- 1, 32), (1, 0)] = Some (- 32, 3)"
  using sendFileDescriptor_retries_then_reports
      [where fd = 3 and k = 2 and result = 1 and errno = 0 and rest = "[]"]
    sendFileDescriptor_retries_then_reports
      [where fd = 3 and k = 2 and result = 1 and errno = 32 and rest = "[(1, 0)]"]
  by (simp add: sendFileDescriptor_def NO_ERROR_def EINTR_def)

section \<open>The pool stays well formed\<close>

text \<open>
  The calls outside an epoch keep the shape of the pool too: a purge leaves the slots
  their ids, and \<^verbatim>\<open>initialize\<close> does not touch the pool.
\<close>

lemma resize_pool_ok: "pool_ok s \<Longrightarrow> pool_ok (fst (resize w h s))"
  by (simp add: resize_def destroyBufferPool_eq destroyBuffer_def pool_ok_def comp_def)

lemma deinitialize_pool_ok: "pool_ok s \<Longrightarrow> pool_ok (fst (deinitialize s))"
  by (simp add: deinitialize_def destroyBufferPool_eq destroyBuffer_def pool_ok_def comp_def)

lemma initialize_pool_ok:
  "pool_ok s \<Longrightarrow> pool_ok (fst (snd (initialize n a bk w h len reply b s)))"
  by (simp add: initialize_def initialize_reply_def pool_ok_def Let_def split: message.splits)

lemma step_pool_ok:
  "pool_ok s \<Longrightarrow> step c s = Some (Inr (s', evs)) \<Longrightarrow> pool_ok s'"
proof (cases "purges c")
  case False
  assume "pool_ok s" "step c s = Some (Inr (s', evs))"
  with False step_epoch [of c s s' evs 0] show ?thesis by simp
next
  case True
  assume ok: "pool_ok s" and st: "step c s = Some (Inr (s', evs))"
  from True st have "s' = fst (resize (renderer_width s') (renderer_height s') s) \<or>
      s' = fst (deinitialize s)"
    by (cases c) (auto simp: resize_def split: if_splits prod.splits)
  with ok resize_pool_ok deinitialize_pool_ok show ?thesis by metis
qed

end
